theory Spec2Isabelle
  imports Complex_Main
begin

section \<open>Numbers of the program\<close>

text \<open>
  The program (\<^verbatim>\<open>mag1c/target_generation.py\<close>) computes on NumPy \<^verbatim>\<open>float64\<close> values.
  A value is modelled as a finite real number or one of the three special values.
  Rounding to the nearest \<^verbatim>\<open>float64\<close> is not part of the model: a finite result is the
  exact real number. Division by zero, \<^verbatim>\<open>inf\<close> and \<^verbatim>\<open>nan\<close> behave as NumPy's do (a
  warning, never an exception). The array operations whose result leaves the range of
  \<^verbatim>\<open>float64\<close> on inputs the program accepts (\<^verbatim>\<open>np.exp\<close>, \<^verbatim>\<open>** 2\<close>, and the products
  and sums of the resampling) overflow to \<^verbatim>\<open>inf\<close> and underflow to \<open>0\<close> as \<^verbatim>\<open>float64\<close>
  does (\<open>fl\<close> below). Python and NumPy integers (\<^verbatim>\<open>0\<close>, \<^verbatim>\<open>5\<close>, the
  \<^verbatim>\<open>int64\<close> concentration ladder) are embedded as the finite value they denote: every
  place of the program that uses them converts them to \<^verbatim>\<open>float64\<close> first. Zero is
  unsigned; every divisor of the program is a positive constant, a square or a square root,
  so a negative zero never divides.
\<close>

datatype npfloat = Fin real | PInf | NInf | NaN

fun isfinite :: "npfloat \<Rightarrow> bool" where
  "isfinite (Fin _) = True"
| "isfinite _ = False"

fun fneg :: "npfloat \<Rightarrow> npfloat" where
  "fneg (Fin a) = Fin (- a)"
| "fneg PInf = NInf"
| "fneg NInf = PInf"
| "fneg NaN = NaN"

fun fadd :: "npfloat \<Rightarrow> npfloat \<Rightarrow> npfloat" where
  "fadd (Fin a) (Fin b) = Fin (a + b)"
| "fadd NaN _ = NaN"
| "fadd _ NaN = NaN"
| "fadd PInf NInf = NaN"
| "fadd NInf PInf = NaN"
| "fadd PInf _ = PInf"
| "fadd _ PInf = PInf"
| "fadd NInf _ = NInf"
| "fadd _ NInf = NInf"

definition fsub :: "npfloat \<Rightarrow> npfloat \<Rightarrow> npfloat" where
  "fsub x y = fadd x (fneg y)"

fun fmul :: "npfloat \<Rightarrow> npfloat \<Rightarrow> npfloat" where
  "fmul (Fin a) (Fin b) = Fin (a * b)"
| "fmul NaN _ = NaN"
| "fmul _ NaN = NaN"
| "fmul PInf (Fin b) = (if b = 0 then NaN else if 0 < b then PInf else NInf)"
| "fmul NInf (Fin b) = (if b = 0 then NaN else if 0 < b then NInf else PInf)"
| "fmul (Fin a) PInf = (if a = 0 then NaN else if 0 < a then PInf else NInf)"
| "fmul (Fin a) NInf = (if a = 0 then NaN else if 0 < a then NInf else PInf)"
| "fmul PInf PInf = PInf"
| "fmul PInf NInf = NInf"
| "fmul NInf PInf = NInf"
| "fmul NInf NInf = PInf"

fun fdiv :: "npfloat \<Rightarrow> npfloat \<Rightarrow> npfloat" where
  "fdiv (Fin a) (Fin b) =
     (if b = 0 then (if a = 0 then NaN else if 0 < a then PInf else NInf)
      else Fin (a / b))"
| "fdiv NaN _ = NaN"
| "fdiv _ NaN = NaN"
| "fdiv (Fin a) PInf = Fin 0"
| "fdiv (Fin a) NInf = Fin 0"
| "fdiv PInf (Fin b) = (if 0 \<le> b then PInf else NInf)"
| "fdiv NInf (Fin b) = (if 0 \<le> b then NInf else PInf)"
| "fdiv PInf PInf = NaN"
| "fdiv PInf NInf = NaN"
| "fdiv NInf PInf = NaN"
| "fdiv NInf NInf = NaN"

text \<open>
  The range of \<^verbatim>\<open>float64\<close>. Under round-to-nearest an exact result of magnitude at least
  \<open>2^1024 - 2^970\<close> (half-way between the largest finite number and \<open>2^1024\<close>) becomes
  an infinity, and one of magnitude at most \<open>2^-1075\<close> (half the least subnormal number)
  becomes zero. \<open>fl x\<close> is the \<^verbatim>\<open>float64\<close> result of an operation whose exact result is
  \<open>x\<close>, rounding within the range apart.
\<close>

definition float_overflow :: real where
  "float_overflow = 2 ^ 1024 - 2 ^ 970"

definition float_underflow :: real where
  "float_underflow = 1 / 2 ^ 1075"

definition fl :: "real \<Rightarrow> npfloat" where
  "fl x =
     (if float_overflow \<le> \<bar>x\<bar> then (if 0 < x then PInf else NInf)
      else if \<bar>x\<bar> \<le> float_underflow then Fin 0
      else Fin x)"

fun to_range :: "npfloat \<Rightarrow> npfloat" where
  "to_range (Fin x) = fl x"
| "to_range z = z"

text \<open>Products and sums of arrays, with overflow and underflow.\<close>

definition rmul :: "npfloat \<Rightarrow> npfloat \<Rightarrow> npfloat" where
  "rmul x y = to_range (fmul x y)"

definition radd :: "npfloat \<Rightarrow> npfloat \<Rightarrow> npfloat" where
  "radd x y = to_range (fadd x y)"

text \<open>\<^verbatim>\<open>x ** 2\<close> and \<^verbatim>\<open>x ** 0.5\<close> (C's \<^verbatim>\<open>pow\<close>).\<close>

definition fsquare :: "npfloat \<Rightarrow> npfloat" where
  "fsquare x = rmul x x"

fun fsqrt :: "npfloat \<Rightarrow> npfloat" where
  "fsqrt (Fin a) = (if a < 0 then NaN else Fin (sqrt a))"
| "fsqrt PInf = PInf"
| "fsqrt NInf = PInf"
| "fsqrt NaN = NaN"

text \<open>\<^verbatim>\<open>np.exp\<close>: zero for a large negative argument, \<^verbatim>\<open>inf\<close> for a large positive one.\<close>

fun fexp :: "npfloat \<Rightarrow> npfloat" where
  "fexp (Fin a) = fl (exp a)"
| "fexp PInf = PInf"
| "fexp NInf = Fin 0"
| "fexp NaN = NaN"

text \<open>\<^verbatim>\<open>np.log\<close> and \<^verbatim>\<open>np.log2\<close>.\<close>

fun flog :: "npfloat \<Rightarrow> npfloat" where
  "flog (Fin a) = (if a < 0 then NaN else if a = 0 then NInf else Fin (ln a))"
| "flog PInf = PInf"
| "flog NInf = NaN"
| "flog NaN = NaN"

fun flog2 :: "npfloat \<Rightarrow> npfloat" where
  "flog2 (Fin a) = (if a < 0 then NaN else if a = 0 then NInf else Fin (log 2 a))"
| "flog2 PInf = PInf"
| "flog2 NInf = NaN"
| "flog2 NaN = NaN"

text \<open>Comparisons: every comparison with \<^verbatim>\<open>nan\<close> is false.\<close>

fun flt :: "npfloat \<Rightarrow> npfloat \<Rightarrow> bool" where
  "flt (Fin a) (Fin b) = (a < b)"
| "flt NaN _ = False"
| "flt _ NaN = False"
| "flt _ NInf = False"
| "flt PInf _ = False"
| "flt NInf _ = True"
| "flt _ PInf = True"

fun fle :: "npfloat \<Rightarrow> npfloat \<Rightarrow> bool" where
  "fle (Fin a) (Fin b) = (a \<le> b)"
| "fle NaN _ = False"
| "fle _ NaN = False"
| "fle NInf _ = True"
| "fle _ PInf = True"
| "fle _ NInf = False"
| "fle PInf _ = False"

definition fgt :: "npfloat \<Rightarrow> npfloat \<Rightarrow> bool" where
  "fgt x y = flt y x"

text \<open>Sums start from zero: \<^verbatim>\<open>ndarray.sum\<close>, and the inner sums of \<^verbatim>\<open>ndarray.dot\<close>.\<close>

definition fsum :: "npfloat list \<Rightarrow> npfloat" where
  "fsum xs = foldr fadd xs (Fin 0)"

definition rsum :: "npfloat list \<Rightarrow> npfloat" where
  "rsum xs = foldr radd xs (Fin 0)"

section \<open>Axis index mappers\<close>

definition get_5deg_zenith_angle_index :: "npfloat \<Rightarrow> npfloat" where
  "get_5deg_zenith_angle_index zenith_value = fdiv zenith_value (Fin 5)"

definition get_5deg_sensor_height_index :: "npfloat \<Rightarrow> npfloat" where
  "get_5deg_sensor_height_index sensor_value =
     (if flt sensor_value (Fin 1) then Fin 0
      else if flt sensor_value (Fin 2) then fsub sensor_value (Fin 1)
      else if flt sensor_value (Fin 4) then fdiv sensor_value (Fin 2)
      else if flt sensor_value (Fin 10) then
        fadd (fdiv sensor_value (Fin 6)) (fdiv (Fin 4) (Fin 3))
      else if flt sensor_value (Fin 20) then fadd (fdiv sensor_value (Fin 10)) (Fin 2)
      else if flt sensor_value (Fin 200) then
        fadd (fdiv sensor_value (Fin 180)) (fdiv (Fin 35) (Fin 9))
      else Fin 5)"

definition get_5deg_ground_altitude_index :: "npfloat \<Rightarrow> npfloat" where
  "get_5deg_ground_altitude_index ground_value =
     (if flt ground_value (Fin 1) then fmul (Fin 2) ground_value
      else fadd (Fin 1) ground_value)"

definition get_5deg_water_vapor_index :: "npfloat \<Rightarrow> npfloat" where
  "get_5deg_water_vapor_index water_value = water_value"

definition get_5deg_methane_index :: "npfloat \<Rightarrow> npfloat" where
  "get_5deg_methane_index methane_value =
     (if fle methane_value (Fin 0) then Fin 0
      else if flt methane_value (Fin 1000) then fdiv methane_value (Fin 1000)
      else flog2 (fdiv methane_value (Fin 500)))"

text \<open>
  The functions are wrapped in \<^verbatim>\<open>np.vectorize\<close>; the program only ever calls them on
  one scalar at a time (\<^verbatim>\<open>get_5deg_lookup_index\<close>), which is what the definitions above
  describe. The five indices are stacked into the coordinate column.
\<close>

definition get_5deg_lookup_index ::
  "npfloat \<Rightarrow> npfloat \<Rightarrow> npfloat \<Rightarrow> npfloat \<Rightarrow> npfloat \<Rightarrow> npfloat list" where
  "get_5deg_lookup_index zenith sensor ground water methane =
     [get_5deg_zenith_angle_index zenith,
      get_5deg_sensor_height_index sensor,
      get_5deg_ground_altitude_index ground,
      get_5deg_water_vapor_index water,
      get_5deg_methane_index methane]"

section \<open>Grid interpolation and the radiance library\<close>

text \<open>
  The lookup grid is a six-dimensional array whose last axis is the wavelength.
  \<^verbatim>\<open>spline_5deg_lookup\<close> walks over \<^verbatim>\<open>np.moveaxis(grid_data, 5, 0)\<close>, so the grid is
  kept as the list of its five-dimensional wavelength slices (of an arbitrary type \<open>'s\<close>),
  and \<^verbatim>\<open>grid.shape[-1]\<close> is the length of that list.
  \<^verbatim>\<open>scipy.ndimage.map_coordinates\<close> is SciPy's routine, not code of this repository: it is
  the parameter \<open>map_coordinates\<close>, which gives the value interpolated in one slice at one
  coordinate column for one spline order (with \<^verbatim>\<open>mode='nearest'\<close>).
\<close>

type_synonym 's dataset = "'s list \<times> npfloat list list \<times> npfloat list"

datatype error = RuntimeError string | IOError | ValueError

text \<open>
  \<^verbatim>\<open>load_dataset\<close> reads the file \<^verbatim>\<open>dataset_noms.npz\<close>. The world outside the program is
  the content of that file (\<open>None\<close> when it cannot be read, and \<^verbatim>\<open>np.load\<close> raises) and
  the number of times the file has been opened.
\<close>

record 's world =
  dataset_noms :: "'s dataset option"
  loads :: nat

definition load_dataset :: "'s world \<Rightarrow> (error + 's dataset) \<times> 's world" where
  "load_dataset w =
     (case dataset_noms w of
        None \<Rightarrow> (Inl IOError, w\<lparr>loads := Suc (loads w)\<rparr>)
      | Some datafile \<Rightarrow> (Inr datafile, w\<lparr>loads := Suc (loads w)\<rparr>))"

definition spline_5deg_lookup ::
  "('s \<Rightarrow> npfloat list \<Rightarrow> nat \<Rightarrow> npfloat) \<Rightarrow> 's list \<Rightarrow>
   npfloat \<Rightarrow> npfloat \<Rightarrow> npfloat \<Rightarrow> npfloat \<Rightarrow> npfloat \<Rightarrow> nat \<Rightarrow> npfloat list" where
  "spline_5deg_lookup map_coordinates grid_data zenith sensor ground water methane order =
     (let coords = get_5deg_lookup_index zenith sensor ground water methane
      in map (\<lambda>im. map_coordinates im coords order) grid_data)"

definition generate_library ::
  "('s \<Rightarrow> npfloat list \<Rightarrow> nat \<Rightarrow> npfloat) \<Rightarrow> npfloat list \<Rightarrow>
   npfloat \<Rightarrow> npfloat \<Rightarrow> npfloat \<Rightarrow> npfloat \<Rightarrow> nat \<Rightarrow> 's world \<Rightarrow>
   (error + npfloat list list \<times> npfloat list) \<times> 's world" where
  "generate_library map_coordinates methane_vals zenith sensor ground water order w =
     (case load_dataset w of
        (Inl e, w') \<Rightarrow> (Inl e, w')
      | (Inr (grid, params, wave), w') \<Rightarrow>
          (Inr (map (\<lambda>ppmm. spline_5deg_lookup map_coordinates grid
                             zenith sensor ground water ppmm order) methane_vals,
                wave), w'))"

section \<open>The unit absorption spectrum\<close>

text \<open>
  The keyword dictionary \<^verbatim>\<open>params\<close> that \<^verbatim>\<open>main\<close> builds has exactly the keys below.
\<close>

record scene_params =
  zenith :: npfloat
  sensor :: npfloat
  ground :: npfloat
  water :: npfloat
  order :: nat

definition SCALING :: npfloat where
  "SCALING = Fin 100000"

definition concentrations :: "npfloat list" where
  "concentrations = map Fin [0, 500, 1000, 2000, 4000, 8000, 16000, 32000]"

text \<open>
  A two-dimensional array is the list of its rows; the number of columns is passed along
  where an array may have no row. \<open>column M j\<close> is \<^verbatim>\<open>M[:, j]\<close>.
\<close>

definition column :: "npfloat list list \<Rightarrow> nat \<Rightarrow> npfloat list" where
  "column M j = map (\<lambda>row. row ! j) M"

text \<open>\<^verbatim>\<open>sigma = fwhm / (2.0 * np.sqrt(2.0 * np.log(2.0)))\<close>\<close>

definition sigma_of :: "npfloat list \<Rightarrow> npfloat list" where
  "sigma_of fwhm =
     map (\<lambda>f. fdiv f (fmul (Fin 2) (fsqrt (fmul (Fin 2) (flog (Fin 2)))))) fwhm"

text \<open>\<^verbatim>\<open>var = sigma ** 2\<close>\<close>

definition var_of :: "npfloat list \<Rightarrow> npfloat list" where
  "var_of sigma = map fsquare sigma"

text \<open>\<^verbatim>\<open>denom = (2 * np.pi * var) ** 0.5\<close>\<close>

definition denom_of :: "npfloat list \<Rightarrow> npfloat list" where
  "denom_of var = map (\<lambda>v. fsqrt (fmul (fmul (Fin 2) (Fin pi)) v)) var"

text \<open>\<^verbatim>\<open>numer = np.exp(-(wave[:, None] - centers[None, :])**2 / (2*var))\<close>\<close>

definition numer_of :: "npfloat list \<Rightarrow> npfloat list \<Rightarrow> npfloat list \<Rightarrow> npfloat list list" where
  "numer_of wave centers var =
     map (\<lambda>w. map2 (\<lambda>c v. fexp (fdiv (fneg (fsquare (fsub w c))) (fmul (Fin 2) v)))
                centers var) wave"

text \<open>\<^verbatim>\<open>response = numer / denom\<close>\<close>

definition response_of :: "npfloat list list \<Rightarrow> npfloat list \<Rightarrow> npfloat list list" where
  "response_of numer denom = map (\<lambda>row. map2 fdiv row denom) numer"

text \<open>\<^verbatim>\<open>response.sum(axis=0)\<close>, for a response of \<open>n\<close> columns.\<close>

definition sum_axis0 :: "npfloat list list \<Rightarrow> nat \<Rightarrow> npfloat list" where
  "sum_axis0 M n = map (\<lambda>j. fsum (column M j)) [0..<n]"

text \<open>
  \<^verbatim>\<open>np.divide(response, response.sum(axis=0), where=response.sum(axis=0) > 0, out=response)\<close>:
  an entry is divided by the sum of its column where that sum is greater than zero, and
  keeps its value elsewhere.
\<close>

definition normalize :: "npfloat list list \<Rightarrow> nat \<Rightarrow> npfloat list list" where
  "normalize response n =
     (let s = sum_axis0 response n
      in map (\<lambda>row. map2 (\<lambda>x sj. if fgt sj (Fin 0) then fdiv x sj else x) row s) response)"

text \<open>
  \<^verbatim>\<open>rads.dot(response)\<close> for a \<open>response\<close> of \<open>n\<close> columns. NumPy raises \<^verbatim>\<open>ValueError\<close>
  unless the rows of \<open>rads\<close> are as long as \<open>response\<close> has rows. A product or a sum
  that leaves the range of \<^verbatim>\<open>float64\<close> overflows or underflows.
\<close>

definition dot :: "npfloat list list \<Rightarrow> npfloat list list \<Rightarrow> nat \<Rightarrow> error + npfloat list list" where
  "dot rads response n =
     (if list_ex (\<lambda>r. length r \<noteq> length response) rads then Inl ValueError
      else Inr (map (\<lambda>r. map (\<lambda>j. rsum (map2 rmul r (column response j))) [0..<n]) rads))"

text \<open>\<^verbatim>\<open>lograd = np.log(resampled, out=np.zeros_like(resampled), where=resampled > 0)\<close>\<close>

definition lograd_of :: "npfloat list list \<Rightarrow> npfloat list list" where
  "lograd_of resampled = map (map (\<lambda>x. if fgt x (Fin 0) then flog x else Fin 0)) resampled"

text \<open>
  \<^verbatim>\<open>np.linalg.lstsq(np.stack((np.ones_like(concentrations), concentrations)).T, lograd,
  rcond=None)\<close>. The design matrix is the list of its rows \<open>(1, concentration)\<close>.
  \<^verbatim>\<open>np.linalg.lstsq\<close> is NumPy's routine, not code of this repository; NumPy documents its
  first result as the least-squares solution of \<^verbatim>\<open>a @ x = b\<close>, computed for every column
  of \<open>b\<close>. For a design matrix of two independent columns that solution is unique and solves
  the normal equations, and this is how \<open>lstsq_column\<close> computes it (lemma
  \<open>lstsq_column_least_squares\<close> below shows that the result minimises the sum of squared
  residuals). Data that is not finite goes through the same arithmetic.
\<close>

definition design_matrix :: "npfloat list \<Rightarrow> (npfloat \<times> npfloat) list" where
  "design_matrix cs = zip (map (\<lambda>_. Fin 1) cs) cs"

definition lstsq_column :: "(npfloat \<times> npfloat) list \<Rightarrow> npfloat list \<Rightarrow> npfloat \<times> npfloat" where
  "lstsq_column A y =
     (let u = map fst A; x = map snd A;
          suu = fsum (map2 fmul u u); sux = fsum (map2 fmul u x); sxx = fsum (map2 fmul x x);
          suy = fsum (map2 fmul u y); sxy = fsum (map2 fmul x y);
          det = fsub (fmul suu sxx) (fmul sux sux)
      in (fdiv (fsub (fmul sxx suy) (fmul sux sxy)) det,
          fdiv (fsub (fmul suu sxy) (fmul sux suy)) det))"

definition lstsq :: "(npfloat \<times> npfloat) list \<Rightarrow> npfloat list list \<Rightarrow> nat \<Rightarrow> (npfloat \<times> npfloat) list" where
  "lstsq A B n = map (\<lambda>j. lstsq_column A (column B j)) [0..<n]"

text \<open>\<^verbatim>\<open>spectrum = slope[1, :] * SCALING\<close>, from the resampled radiances on.\<close>

definition spectrum_of :: "npfloat list list \<Rightarrow> nat \<Rightarrow> npfloat list" where
  "spectrum_of resampled n =
     (let lograd = lograd_of resampled;
          slope = lstsq (design_matrix concentrations) lograd n
      in map (\<lambda>x. fmul (snd x) SCALING) slope)"

text \<open>\<^verbatim>\<open>target = np.stack((np.arange(1, spectrum.shape[0]+1), centers, spectrum)).T\<close>\<close>

definition target_of :: "npfloat list \<Rightarrow> npfloat list \<Rightarrow> (npfloat \<times> npfloat \<times> npfloat) list" where
  "target_of centers spectrum =
     zip (map (\<lambda>i. Fin (real i)) [1..<Suc (length spectrum)]) (zip centers spectrum)"

definition generate_template_from_bands ::
  "('s \<Rightarrow> npfloat list \<Rightarrow> nat \<Rightarrow> npfloat) \<Rightarrow> npfloat list \<Rightarrow> npfloat list \<Rightarrow>
   scene_params \<Rightarrow> 's world \<Rightarrow> (error + (npfloat \<times> npfloat \<times> npfloat) list) \<times> 's world" where
  "generate_template_from_bands map_coordinates centers fwhm params w =
     (if list_ex (\<lambda>c. \<not> isfinite c) centers \<or> list_ex (\<lambda>f. \<not> isfinite f) fwhm then
        (Inl (RuntimeError
           ''Band Wavelengths Centers/FWHM data contains non-finite data (NaN or Inf).''), w)
      else if length centers \<noteq> length fwhm then
        (Inl (RuntimeError
           ''Length of band center wavelengths and band fwhm arrays must be equal.''), w)
      else
        (case generate_library map_coordinates concentrations
                (zenith params) (sensor params) (ground params) (water params)
                (order params) w of
           (Inl e, w') \<Rightarrow> (Inl e, w')
         | (Inr (rads, wave), w') \<Rightarrow>
             (let sigma = sigma_of fwhm;
                  var = var_of sigma;
                  denom = denom_of var;
                  numer = numer_of wave centers var;
                  response = normalize (response_of numer denom) (length centers)
              in case dot rads response (length centers) of
                   Inl e \<Rightarrow> (Inl e, w')
                 | Inr resampled \<Rightarrow>
                     (Inr (target_of centers (spectrum_of resampled (length centers))), w'))))"

section \<open>Notions used to state the properties\<close>

text \<open>The real number a finite value stands for.\<close>

fun fin_of :: "npfloat \<Rightarrow> real" where
  "fin_of (Fin a) = a"
| "fin_of _ = 0"

text \<open>\<^verbatim>\<open>c * R\<close> for a scalar \<open>c\<close> and a two-dimensional array \<open>R\<close>.\<close>

definition scale :: "npfloat \<Rightarrow> npfloat list list \<Rightarrow> npfloat list list" where
  "scale c R = map (map (rmul c)) R"

text \<open>
  A value that an array operation returns as it is: no overflow and no underflow. For an
  inner product, every product and every partial sum has to be such a value.
\<close>

definition in_range :: "npfloat \<Rightarrow> bool" where
  "in_range z = (to_range z = z)"

fun sums_in_range :: "npfloat list \<Rightarrow> bool" where
  "sums_in_range [] = True"
| "sums_in_range (p # ps) = (in_range (fadd p (fsum ps)) \<and> sums_in_range ps)"

definition inner_in_range :: "npfloat list \<Rightarrow> npfloat list \<Rightarrow> bool" where
  "inner_in_range r col =
     (list_all in_range (map2 fmul r col) \<and> sums_in_range (map2 fmul r col))"

text \<open>
  Neither \<open>c * R\<close>, nor its resampling, nor the resampling of \<open>R\<close>, nor \<open>c\<close> times the
  latter leaves the range of \<^verbatim>\<open>float64\<close>.
\<close>

definition within_range :: "real \<Rightarrow> npfloat list list \<Rightarrow> npfloat list list \<Rightarrow> nat \<Rightarrow> bool" where
  "within_range c R M n =
     (\<forall>r \<in> set R.
        list_all (\<lambda>x. in_range (fmul (Fin c) x)) r \<and>
        (\<forall>j < n.
           inner_in_range (map (fmul (Fin c)) r) (column M j) \<and>
           inner_in_range r (column M j) \<and>
           in_range (fmul (Fin c) (fsum (map2 fmul r (column M j))))))"




text \<open>
  The response matrix before it is normalised, as \<^verbatim>\<open>generate_template_from_bands\<close>
  computes it from the wavelength axis of the dataset and the band centers and widths.
\<close>

definition raw_response :: "npfloat list \<Rightarrow> npfloat list \<Rightarrow> npfloat list \<Rightarrow> npfloat list list" where
  "raw_response wave centers fwhm =
     (let sigma = sigma_of fwhm;
          var = var_of sigma;
          denom = denom_of var;
          numer = numer_of wave centers var
      in response_of numer denom)"

section \<open>Basic facts about the arithmetic\<close>

lemma fsum_Nil: "fsum [] = Fin 0"
  by (simp add: fsum_def)

lemma fsum_Cons: "fsum (x # xs) = fadd x (fsum xs)"
  by (simp add: fsum_def)


lemma isfinite_iff: "isfinite x \<longleftrightarrow> (\<exists>a. x = Fin a)"
  by (cases x) simp_all

lemma fmul_Fin_assoc: "fmul (fmul (Fin c) r) m = fmul (Fin c) (fmul r m)"
  by (cases r; cases m) (auto simp: zero_less_mult_iff mult_less_0_iff not_less)

lemma fmul_Fin_fadd: "fmul (Fin c) (fadd s t) = fadd (fmul (Fin c) s) (fmul (Fin c) t)"
  by (cases s; cases t) (auto simp: distrib_left)

lemma fsum_fmul_Fin: "fsum (map (fmul (Fin c)) xs) = fmul (Fin c) (fsum xs)"
  by (induction xs) (simp_all add: fsum_Nil fsum_Cons fmul_Fin_fadd)

lemma map2_scaled:
  "map2 fmul (map (fmul (Fin c)) r) col = map (fmul (Fin c)) (map2 fmul r col)"
  by (simp add: zip_map1 split_def fmul_Fin_assoc)



section \<open>Facts about the regression\<close>















section \<open>Facts about the response matrix\<close>










lemma raw_response_rows:
  assumes "length centers = length fwhm"
  shows "\<forall>row \<in> set (raw_response wave centers fwhm). length row = length centers"
  using assms
  by (auto simp: raw_response_def Let_def response_of_def numer_of_def denom_of_def var_of_def
      sigma_of_def)

lemma generate_template_from_bands_response:
  assumes "\<not> list_ex (\<lambda>c. \<not> isfinite c) centers" and "\<not> list_ex (\<lambda>f. \<not> isfinite f) fwhm"
    and "length centers = length fwhm"
    and "generate_library mc concentrations (zenith params) (sensor params) (ground params)
           (water params) (order params) w = (Inr (rads, wave), w')"
  shows "generate_template_from_bands mc centers fwhm params w =
     (case dot rads (normalize (raw_response wave centers fwhm) (length centers))
             (length centers) of
        Inl e \<Rightarrow> (Inl e, w')
      | Inr resampled \<Rightarrow>
          (Inr (target_of centers (spectrum_of resampled (length centers))), w'))"
  using assms by (simp add: generate_template_from_bands_def raw_response_def Let_def)

section \<open>Facts about the range of \<^verbatim>\<open>float64\<close>\<close>

lemma fl_moderate:
  assumes "1 / 2 ^ 1022 \<le> \<bar>x\<bar>" and "\<bar>x\<bar> \<le> 2 ^ 1023"
  shows "fl x = Fin x"
proof -
  have "(1::real) / 2 ^ 1075 < 1 / 2 ^ 1022"
    by simp
  moreover have "(2::real) ^ 1023 < 2 ^ 1024 - 2 ^ 970"
    by simp
  ultimately show ?thesis
    using assms by (simp add: fl_def float_overflow_def float_underflow_def)
qed

lemma fl_zero: "fl 0 = Fin 0"
  by (simp add: fl_def float_overflow_def float_underflow_def)

lemma rmul_in_range: "in_range (fmul x y) \<Longrightarrow> rmul x y = fmul x y"
  by (simp add: rmul_def in_range_def)

lemma rsum_Nil: "rsum [] = Fin 0"
  by (simp add: rsum_def)

lemma rsum_Cons: "rsum (p # ps) = radd p (rsum ps)"
  by (simp add: rsum_def)

lemma rsum_in_range: "sums_in_range ps \<Longrightarrow> rsum ps = fsum ps"
  by (induction ps) (simp_all add: rsum_Nil rsum_Cons fsum_Nil fsum_Cons radd_def in_range_def)

lemma map2_rmul_in_range:
  "list_all in_range (map2 fmul r col) \<Longrightarrow> map2 rmul r col = map2 fmul r col"
  by (auto simp: list_all_iff rmul_in_range)

lemma inner_exact:
  "inner_in_range r col \<Longrightarrow> rsum (map2 rmul r col) = fsum (map2 fmul r col)"
  by (simp add: inner_in_range_def map2_rmul_in_range rsum_in_range)

lemma scale_row_exact:
  "list_all (\<lambda>x. in_range (fmul (Fin c) x)) r \<Longrightarrow> map (rmul (Fin c)) r = map (fmul (Fin c)) r"
  by (auto simp: list_all_iff rmul_in_range)

lemma resampled_entry_scaled:
  assumes "list_all (\<lambda>x. in_range (fmul (Fin c) x)) r"
    and "inner_in_range (map (fmul (Fin c)) r) col"
    and "inner_in_range r col"
    and "in_range (fmul (Fin c) (fsum (map2 fmul r col)))"
  shows "rsum (map2 rmul (map (rmul (Fin c)) r) col)
     = rmul (Fin c) (rsum (map2 rmul r col))"
proof -
  have "rsum (map2 rmul (map (rmul (Fin c)) r) col)
      = fsum (map2 fmul (map (fmul (Fin c)) r) col)"
    using assms(1,2) by (simp only: scale_row_exact inner_exact)
  also have "\<dots> = fmul (Fin c) (fsum (map2 fmul r col))"
    by (simp only: map2_scaled fsum_fmul_Fin)
  also have "\<dots> = rmul (Fin c) (rsum (map2 rmul r col))"
    using assms(3,4) by (simp only: inner_exact rmul_in_range)
  finally show ?thesis .
qed

lemma in_range_moderate:
  "1 / 2 ^ 1022 \<le> \<bar>x\<bar> \<Longrightarrow> \<bar>x\<bar> \<le> 2 ^ 1023 \<Longrightarrow> in_range (Fin x)"
  by (simp add: in_range_def fl_moderate)









section \<open>Properties of the axis index mappers\<close>

text \<open>
  C2. For every real sensor height \<open>v\<close> the sensor-height mapper returns \<open>0\<close> below 1,
  \<open>v - 1\<close> on [1,2), \<open>v/2\<close> on [2,4), \<open>v/6 + 4/3\<close> on [4,10), \<open>v/10 + 2\<close> on [10,20),
  \<open>v/180 + 35/9\<close> on [20,200) and \<open>5\<close> from 200 on; at \<open>v = 5\<close> the index is \<open>13/6\<close>.
\<close>

theorem sensor_height_index_formula:
  "(v < 1 \<longrightarrow> get_5deg_sensor_height_index (Fin v) = Fin 0) \<and>
   (1 \<le> v \<and> v < 2 \<longrightarrow> get_5deg_sensor_height_index (Fin v) = Fin (v - 1)) \<and>
   (2 \<le> v \<and> v < 4 \<longrightarrow> get_5deg_sensor_height_index (Fin v) = Fin (v / 2)) \<and>
   (4 \<le> v \<and> v < 10 \<longrightarrow> get_5deg_sensor_height_index (Fin v) = Fin (v / 6 + 4 / 3)) \<and>
   (10 \<le> v \<and> v < 20 \<longrightarrow> get_5deg_sensor_height_index (Fin v) = Fin (v / 10 + 2)) \<and>
   (20 \<le> v \<and> v < 200 \<longrightarrow>
      get_5deg_sensor_height_index (Fin v) = Fin (v / 180 + 35 / 9)) \<and>
   (200 \<le> v \<longrightarrow> get_5deg_sensor_height_index (Fin v) = Fin 5) \<and>
   get_5deg_sensor_height_index (Fin 5) = Fin (13 / 6)"
  by (simp add: get_5deg_sensor_height_index_def fsub_def)

theorem sensor_height_index_formula_witness:
  "get_5deg_sensor_height_index (Fin 0) = Fin 0 \<and>
   get_5deg_sensor_height_index (Fin (3 / 2)) = Fin (1 / 2) \<and>
   get_5deg_sensor_height_index (Fin 3) = Fin (3 / 2) \<and>
   get_5deg_sensor_height_index (Fin 7) = Fin (5 / 2) \<and>
   get_5deg_sensor_height_index (Fin 15) = Fin (7 / 2) \<and>
   get_5deg_sensor_height_index (Fin 110) = Fin (9 / 2) \<and>
   get_5deg_sensor_height_index (Fin 1000) = Fin 5"
  using sensor_height_index_formula [of 0] sensor_height_index_formula [of "3 / 2"]
    sensor_height_index_formula [of 3] sensor_height_index_formula [of 7]
    sensor_height_index_formula [of 15] sensor_height_index_formula [of 110]
    sensor_height_index_formula [of 1000]
  by simp


lemma sensor_height_index_min_max:
  "fin_of (get_5deg_sensor_height_index (Fin v)) =
     max 0 (min (v - 1) (min (v / 2) (min (v / 6 + 4 / 3)
       (min (v / 10 + 2) (min (v / 180 + 35 / 9) 5)))))"
  by (simp add: get_5deg_sensor_height_index_def fsub_def min_def max_def)

lemma sensor_height_index_finite:
  "get_5deg_sensor_height_index (Fin v) = Fin (fin_of (get_5deg_sensor_height_index (Fin v)))"
  by (simp add: get_5deg_sensor_height_index_def fsub_def)

text \<open>
  C9. The sensor-height mapper is monotone non-decreasing on the reals, its value lies in
  [0, 5], at each boundary 1, 2, 4, 10, 20, 200 its value is the value of the formula of the
  segment below, and it is continuous everywhere.
\<close>

theorem sensor_height_index_monotone_bounded:
  "(u \<le> v \<longrightarrow>
      fle (get_5deg_sensor_height_index (Fin u)) (get_5deg_sensor_height_index (Fin v))) \<and>
   fle (Fin 0) (get_5deg_sensor_height_index (Fin v)) \<and>
   fle (get_5deg_sensor_height_index (Fin v)) (Fin 5) \<and>
   get_5deg_sensor_height_index (Fin 1) = Fin 0 \<and>
   get_5deg_sensor_height_index (Fin 2) = fsub (Fin 2) (Fin 1) \<and>
   get_5deg_sensor_height_index (Fin 4) = fdiv (Fin 4) (Fin 2) \<and>
   get_5deg_sensor_height_index (Fin 10) = fadd (fdiv (Fin 10) (Fin 6)) (fdiv (Fin 4) (Fin 3)) \<and>
   get_5deg_sensor_height_index (Fin 20) = fadd (fdiv (Fin 20) (Fin 10)) (Fin 2) \<and>
   get_5deg_sensor_height_index (Fin 200) =
     fadd (fdiv (Fin 200) (Fin 180)) (fdiv (Fin 35) (Fin 9)) \<and>
   isCont (\<lambda>x. fin_of (get_5deg_sensor_height_index (Fin x))) v"
proof -
  have mono: "fle (get_5deg_sensor_height_index (Fin u)) (get_5deg_sensor_height_index (Fin v))"
    if "u \<le> v"
  proof -
    have "fin_of (get_5deg_sensor_height_index (Fin u))
        \<le> fin_of (get_5deg_sensor_height_index (Fin v))"
      unfolding sensor_height_index_min_max
      using that by (intro max.mono min.mono order_refl) simp_all
    then show ?thesis
      using sensor_height_index_finite [of u] sensor_height_index_finite [of v]
      by (metis fle.simps(1))
  qed
  have range: "fle (Fin 0) (get_5deg_sensor_height_index (Fin v)) \<and>
      fle (get_5deg_sensor_height_index (Fin v)) (Fin 5)"
    by (simp add: get_5deg_sensor_height_index_def fsub_def)
  have bounds: "get_5deg_sensor_height_index (Fin 1) = Fin 0 \<and>
      get_5deg_sensor_height_index (Fin 2) = fsub (Fin 2) (Fin 1) \<and>
      get_5deg_sensor_height_index (Fin 4) = fdiv (Fin 4) (Fin 2) \<and>
      get_5deg_sensor_height_index (Fin 10) = fadd (fdiv (Fin 10) (Fin 6)) (fdiv (Fin 4) (Fin 3)) \<and>
      get_5deg_sensor_height_index (Fin 20) = fadd (fdiv (Fin 20) (Fin 10)) (Fin 2) \<and>
      get_5deg_sensor_height_index (Fin 200) =
        fadd (fdiv (Fin 200) (Fin 180)) (fdiv (Fin 35) (Fin 9))"
    by (simp add: get_5deg_sensor_height_index_def fsub_def)
  have cont: "isCont (\<lambda>x. fin_of (get_5deg_sensor_height_index (Fin x))) v"
    unfolding sensor_height_index_min_max by (intro continuous_intros) simp_all
  show ?thesis
    using mono range bounds cont by blast
qed

theorem sensor_height_index_monotone_bounded_witness:
  "fle (get_5deg_sensor_height_index (Fin 3)) (get_5deg_sensor_height_index (Fin 150)) \<and>
   fle (Fin 0) (get_5deg_sensor_height_index (Fin 150)) \<and>
   fle (get_5deg_sensor_height_index (Fin 150)) (Fin 5)"
  using sensor_height_index_monotone_bounded [of 3 150] by simp

lemma methane_index_Fin:
  "get_5deg_methane_index (Fin v) =
     (if v \<le> 0 then Fin 0 else if v < 1000 then Fin (v / 1000) else Fin (log 2 (v / 500)))"
  by (simp add: get_5deg_methane_index_def)

lemma methane_index_isCont_1000:
  "isCont (\<lambda>v. fin_of (get_5deg_methane_index (Fin v))) 1000"
proof -
  let ?g = "\<lambda>v::real. if v \<le> 1000 then (if v < 1000 then v / 1000 else 1)
                       else log 2 (v / 500)"
  have eq: "\<forall>\<^sub>F v in nhds 1000. fin_of (get_5deg_methane_index (Fin v)) = ?g v"
  proof -
    have "\<forall>\<^sub>F v in nhds (1000::real). v \<in> {0<..}"
      by (rule eventually_nhds_in_open) simp_all
    then show ?thesis
      by eventually_elim (auto simp: methane_index_Fin)
  qed
  have "isCont (\<lambda>x::real. log 2 (x / 500)) 1000"
    by (intro continuous_intros) simp_all
  then have "((\<lambda>x::real. log 2 (x / 500)) \<longlongrightarrow> log 2 (1000 / 500)) (at 1000)"
    by (simp add: isCont_def)
  then have r: "((\<lambda>x::real. log 2 (x / 500)) \<longlongrightarrow> 1) (at_right 1000)"
    by (simp add: filterlim_at_split)
  have l: "continuous (at_left 1000) (\<lambda>v::real. if v < 1000 then v / 1000 else 1)"
  proof -
    have "continuous (at_left 1000) (\<lambda>v::real. v / 1000)"
      by (intro continuous_intros) simp_all
    then have "((\<lambda>v::real. v / 1000) \<longlongrightarrow> 1) (at_left 1000)"
      by (simp add: continuous_within)
    moreover have "\<forall>\<^sub>F v in at_left (1000::real).
        v / 1000 = (if v < 1000 then v / 1000 else 1)"
      by (simp add: eventually_at_filter)
    ultimately have "((\<lambda>v::real. if v < 1000 then v / 1000 else 1) \<longlongrightarrow> 1)
        (at_left 1000)"
      by (rule Lim_transform_eventually)
    then show ?thesis by (simp add: continuous_within)
  qed
  have c: "isCont ?g 1000"
    by (rule isCont_If_ge [OF l]) (simp add: r)
  show ?thesis
    using c isCont_cong [OF eq] by simp
qed

text \<open>
  C3. For every real methane value \<open>v\<close> the methane mapper returns \<open>0\<close> when \<open>v \<le> 0\<close>,
  \<open>v/1000\<close> when \<open>0 < v < 1000\<close> and \<open>log2(v/500)\<close> when \<open>v \<ge> 1000\<close>; at \<open>v = 1000\<close>
  both branch formulas evaluate to exactly 1, and the mapping is continuous there.
\<close>

theorem methane_index_formula:
  "get_5deg_methane_index (Fin v) =
     (if v \<le> 0 then Fin 0 else if v < 1000 then Fin (v / 1000) else Fin (log 2 (v / 500))) \<and>
   fdiv (Fin 1000) (Fin 1000) = Fin 1 \<and>
   flog2 (fdiv (Fin 1000) (Fin 500)) = Fin 1 \<and>
   isCont (\<lambda>x. fin_of (get_5deg_methane_index (Fin x))) 1000"
  using methane_index_isCont_1000 by (simp add: methane_index_Fin)

theorem methane_index_formula_witness:
  "get_5deg_methane_index (Fin (- 1)) = Fin 0 \<and>
   get_5deg_methane_index (Fin 250) = Fin (1 / 4) \<and>
   get_5deg_methane_index (Fin 1000) = Fin 1"
  using methane_index_formula [of "- 1"] methane_index_formula [of 250]
    methane_index_formula [of 1000]
  by simp


section \<open>Properties of the pipeline\<close>

text \<open>
  C4. \<^verbatim>\<open>generate_template_from_bands\<close> raises its \<^verbatim>\<open>RuntimeError\<close> exactly when a band
  center or FWHM is not finite or the two sequences differ in length; it then leaves the
  world as it was (the dataset file has not been opened) and returns no spectrum. When the
  check passes, the dataset file is opened once.
\<close>

theorem validation_before_grid_access:
  "((\<exists>msg. fst (generate_template_from_bands mc centers fwhm params w)
            = Inl (RuntimeError msg))
      \<longleftrightarrow> (\<exists>c \<in> set centers. \<not> isfinite c) \<or> (\<exists>f \<in> set fwhm. \<not> isfinite f) \<or>
           length centers \<noteq> length fwhm) \<and>
   ((\<exists>c \<in> set centers. \<not> isfinite c) \<or> (\<exists>f \<in> set fwhm. \<not> isfinite f) \<or>
      length centers \<noteq> length fwhm
      \<longrightarrow> snd (generate_template_from_bands mc centers fwhm params w) = w) \<and>
   (\<not> ((\<exists>c \<in> set centers. \<not> isfinite c) \<or> (\<exists>f \<in> set fwhm. \<not> isfinite f) \<or>
      length centers \<noteq> length fwhm)
      \<longrightarrow> loads (snd (generate_template_from_bands mc centers fwhm params w))
            = Suc (loads w))"
  by (auto simp: generate_template_from_bands_def list_ex_iff generate_library_def
      load_dataset_def Let_def dot_def split: option.splits prod.splits sum.splits)

theorem validation_before_grid_access_witness:
  "(\<exists>msg. fst (generate_template_from_bands (\<lambda>(im::unit) coords k. Fin 0)
        [Fin 2300, NaN] [Fin 10, Fin 10]
        \<lparr>zenith = Fin 0, sensor = Fin 200, ground = Fin 0, water = Fin 0, order = 1\<rparr>
        \<lparr>dataset_noms = None, loads = 0\<rparr>) = Inl (RuntimeError msg)) \<and>
   snd (generate_template_from_bands (\<lambda>(im::unit) coords k. Fin 0)
        [Fin 2300, NaN] [Fin 10, Fin 10]
        \<lparr>zenith = Fin 0, sensor = Fin 200, ground = Fin 0, water = Fin 0, order = 1\<rparr>
        \<lparr>dataset_noms = None, loads = 0\<rparr>) = \<lparr>dataset_noms = None, loads = 0\<rparr> \<and>
   loads (snd (generate_template_from_bands (\<lambda>(im::unit) coords k. Fin 0)
        [Fin 2300] [Fin 10]
        \<lparr>zenith = Fin 0, sensor = Fin 200, ground = Fin 0, water = Fin 0, order = 1\<rparr>
        \<lparr>dataset_noms = None, loads = 0\<rparr>)) = Suc 0"
  using validation_before_grid_access [where centers = "[Fin 2300, NaN]"
      and fwhm = "[Fin 10, Fin 10]" and mc = "\<lambda>(im::unit) coords k. Fin 0"
      and params = "\<lparr>zenith = Fin 0, sensor = Fin 200, ground = Fin 0, water = Fin 0, order = 1\<rparr>"
      and w = "\<lparr>dataset_noms = None, loads = 0\<rparr>"]
    validation_before_grid_access [where centers = "[Fin 2300]"
      and fwhm = "[Fin 10]" and mc = "\<lambda>(im::unit) coords k. Fin 0"
      and params = "\<lparr>zenith = Fin 0, sensor = Fin 200, ground = Fin 0, water = Fin 0, order = 1\<rparr>"
      and w = "\<lparr>dataset_noms = None, loads = 0\<rparr>"]
  by simp

text \<open>
  C6. Before the regression a resampled radiance that is zero or negative becomes the log
  value 0 and a radiance greater than zero becomes its natural logarithm; no log value is
  \<^verbatim>\<open>nan\<close> or \<^verbatim>\<open>-inf\<close>, and the step has no error result.
\<close>

theorem lograd_values:
  "(\<forall>i < length R. \<forall>j < length (R ! i).
      (\<forall>x. R ! i ! j = Fin x \<and> x \<le> 0 \<longrightarrow> lograd_of R ! i ! j = Fin 0) \<and>
      (\<forall>x. R ! i ! j = Fin x \<and> 0 < x \<longrightarrow> lograd_of R ! i ! j = Fin (ln x)) \<and>
      lograd_of R ! i ! j \<noteq> NaN \<and> lograd_of R ! i ! j \<noteq> NInf) \<and>
   length (lograd_of R) = length R \<and>
   (\<forall>i < length R. length (lograd_of R ! i) = length (R ! i))"
proof -
  have e: "(if fgt x (Fin 0) then flog x else Fin 0) \<noteq> NaN \<and>
           (if fgt x (Fin 0) then flog x else Fin 0) \<noteq> NInf" for x
    by (cases x) (simp_all add: fgt_def)
  show ?thesis
    using e by (auto simp: lograd_of_def fgt_def)
qed

theorem lograd_values_witness:
  "lograd_of [[Fin (- 2), Fin 0, Fin 1]] ! 0 ! 0 = Fin 0 \<and>
   lograd_of [[Fin (- 2), Fin 0, Fin 1]] ! 0 ! 1 = Fin 0 \<and>
   lograd_of [[Fin (- 2), Fin 0, Fin 1]] ! 0 ! 2 = Fin (ln 1) \<and>
   lograd_of [[Fin (- 2), Fin 0, Fin 1]] ! 0 ! 0 \<noteq> NaN \<and>
   lograd_of [[Fin (- 2), Fin 0, Fin 1]] ! 0 ! 0 \<noteq> NInf"
proof -
  let ?R = "[[Fin (- 2), Fin 0, Fin 1]]"
  have h: "\<forall>i < length ?R. \<forall>j < length (?R ! i).
      (\<forall>x. ?R ! i ! j = Fin x \<and> x \<le> 0 \<longrightarrow> lograd_of ?R ! i ! j = Fin 0) \<and>
      (\<forall>x. ?R ! i ! j = Fin x \<and> 0 < x \<longrightarrow> lograd_of ?R ! i ! j = Fin (ln x)) \<and>
      lograd_of ?R ! i ! j \<noteq> NaN \<and> lograd_of ?R ! i ! j \<noteq> NInf"
    using lograd_values [of ?R] by blast
  have h0: "(\<forall>x. ?R ! 0 ! 0 = Fin x \<and> x \<le> 0 \<longrightarrow> lograd_of ?R ! 0 ! 0 = Fin 0) \<and>
      lograd_of ?R ! 0 ! 0 \<noteq> NaN \<and> lograd_of ?R ! 0 ! 0 \<noteq> NInf"
    using h by simp
  have h1: "(\<forall>x. ?R ! 0 ! 1 = Fin x \<and> x \<le> 0 \<longrightarrow> lograd_of ?R ! 0 ! 1 = Fin 0)"
    using h by simp
  have h2: "(\<forall>x. ?R ! 0 ! 2 = Fin x \<and> 0 < x \<longrightarrow> lograd_of ?R ! 0 ! 2 = Fin (ln x))"
    using h by simp
  show ?thesis
    using h0 h1 h2 by simp
qed

text \<open>
  C7, as amended. Resampling is linear in the radiance library as long as the range of
  \<^verbatim>\<open>float64\<close> is not left: for every library \<open>R\<close>, response \<open>M\<close> and real scalar \<open>c\<close>
  such that no product and no partial sum of \<open>c * R\<close>, of its resampling, of the
  resampling of \<open>R\<close> and of \<open>c\<close> times the latter overflows or underflows, resampling
  \<open>c * R\<close> gives \<open>c\<close> times the resampling of \<open>R\<close>, rounding apart (and fails on the same
  shapes).
\<close>

theorem resampling_linear:
  "within_range c R M n \<longrightarrow>
   dot (scale (Fin c) R) M n =
     (case dot R M n of Inl e \<Rightarrow> Inl e | Inr P \<Rightarrow> Inr (scale (Fin c) P))"
proof
  assume w: "within_range c R M n"
  have "rsum (map2 rmul (map (rmul (Fin c)) r) (column M j))
      = rmul (Fin c) (rsum (map2 rmul r (column M j)))"
    if "r \<in> set R" and "j < n" for r j
    using w that by (intro resampled_entry_scaled) (auto simp: within_range_def)
  then show "dot (scale (Fin c) R) M n =
     (case dot R M n of Inl e \<Rightarrow> Inl e | Inr P \<Rightarrow> Inr (scale (Fin c) P))"
    by (simp add: dot_def scale_def list_ex_iff o_def)
qed

theorem resampling_linear_witness:
  "within_range 3 [[Fin 1, Fin 2]] [[Fin 1], [Fin 1]] 1 \<and>
   dot (scale (Fin 3) [[Fin 1, Fin 2]]) [[Fin 1], [Fin 1]] 1 = Inr [[Fin 9]]"
proof -
  have m: "in_range (Fin 1)" "in_range (Fin 2)" "in_range (Fin 3)" "in_range (Fin 6)"
    "in_range (Fin 9)"
    by (rule in_range_moderate; simp)+
  have w: "within_range 3 [[Fin 1, Fin 2]] [[Fin 1], [Fin 1]] 1"
    by (simp add: within_range_def inner_in_range_def column_def fsum_def m)
  have a: "dot [[Fin 1, Fin 2]] [[Fin 1], [Fin 1]] 1 = Inr [[Fin 3]]"
    using m by (simp add: dot_def column_def rsum_def rmul_def radd_def in_range_def)
  have s: "scale (Fin 3) [[Fin 3]] = [[Fin 9]]"
    using m by (simp add: scale_def rmul_def in_range_def)
  have "dot (scale (Fin 3) [[Fin 1, Fin 2]]) [[Fin 1], [Fin 1]] 1
      = Inr (scale (Fin 3) [[Fin 3]])"
    using w resampling_linear [of 3 "[[Fin 1, Fin 2]]" "[[Fin 1], [Fin 1]]" 1]
    by (simp only: a sum.case)
  then show ?thesis
    using w by (simp only: s simp_thms)
qed

text \<open>
  C7 as stated fails: for \<open>c = 2^1023\<close>, \<open>R = [[2]]\<close> and \<open>M = [[0.5]]\<close> the scaled
  library overflows, so resampling \<open>c * R\<close> gives \<^verbatim>\<open>inf\<close>, while \<open>c\<close> times the
  resampling of \<open>R\<close> is the finite \<open>2^1023\<close>.
\<close>

theorem resampling_linear_counterexample:
  "dot (scale (Fin (2 ^ 1023)) [[Fin 2]]) [[Fin (1 / 2)]] 1 = Inr [[PInf]] \<and>
   dot [[Fin 2]] [[Fin (1 / 2)]] 1 = Inr [[Fin 1]] \<and>
   scale (Fin (2 ^ 1023)) [[Fin 1]] = [[Fin (2 ^ 1023)]] \<and>
   dot (scale (Fin (2 ^ 1023)) [[Fin 2]]) [[Fin (1 / 2)]] 1
     \<noteq> (case dot [[Fin 2]] [[Fin (1 / 2)]] 1 of
          Inl e \<Rightarrow> Inl e | Inr P \<Rightarrow> Inr (scale (Fin (2 ^ 1023)) P))"
  by (simp add: dot_def scale_def column_def rsum_def rmul_def radd_def fl_def
      float_overflow_def float_underflow_def)








end
